theory Spec2Isabelle
  imports Main "HOL-Library.Word" "HOL-Library.Signed_Division"
begin

unbundle bit_operations_syntax

section \<open>Machine types\<close>

type_synonym u4 = "4 word"
type_synonym u8 = "8 word"
type_synonym u16 = "16 word"
type_synonym u32 = "32 word"
type_synonym u64 = "64 word"

text \<open>
  A C \<^verbatim>\<open>float\<close> is carried as its IEEE-754 binary32 encoding: bit 31 is the sign,
  bits 30..23 the exponent, bits 22..0 the fraction.
\<close>

type_synonym f32 = "32 word"

section \<open>cpu-implementation.c: data model\<close>

text \<open>
  \<^verbatim>\<open>instruction_t\<close>: six bit-fields; the four-bit fields can only hold 0..15.
\<close>

record instruction_t =
  opcode :: u4
  funct :: u4
  rs2 :: u4
  rs1 :: u4
  imm :: u16
  extended :: u32

text \<open>
  \<^verbatim>\<open>register_file_t\<close>. An array of 64 entries is a total function on six-bit
  indices, an array of 32 entries one on five-bit indices, so that every index is in range
  exactly when it is in the C array.
\<close>

record register_file_t =
  gpr :: "6 word \<Rightarrow> u64"
  fpr :: "6 word \<Rightarrow> f32"
  vector :: "5 word \<Rightarrow> 6 word \<Rightarrow> u8"
  pc :: u64
  sp :: u64
  fp :: u64
  lr :: u64
  flags :: u64

record cache_line_t =
  tag :: u64
  line_data :: "6 word \<Rightarrow> u8"
  valid :: u8
  dirty :: u8
  lru :: u8

record cache_t =
  lines :: "cache_line_t list"
  size :: int
  associativity :: int
  line_size :: int
  sets :: int

record cpu_core_t =
  core_id :: int
  thread_id :: int
  regs :: register_file_t
  l1i :: cache_t
  l1d :: cache_t
  l2 :: cache_t
  l3 :: cache_t
  pipeline :: "u8 list"
  pipeline_stage :: int
  branch_predictor :: "int list"
  performance_counters :: "int list"

datatype instruction_type_t =
    INST_ADD | INST_SUB | INST_MUL | INST_DIV | INST_MOD
  | INST_AND | INST_OR | INST_XOR | INST_NOT
  | INST_SHL | INST_SHR | INST_ROT
  | INST_CMP | INST_TEST
  | INST_CLZ | INST_CTZ | INST_POPCNT
  | INST_LOAD | INST_STORE
  | INST_BEQ | INST_BNE | INST_BLT | INST_BLE | INST_BGT | INST_BGE
  | INST_FADD | INST_FSUB | INST_FMUL | INST_FDIV | INST_FSQRT
  | INST_VADD | INST_VSUB | INST_VMUL | INST_VDIV
  | INST_CONV | INST_RELU | INST_SOFTMAX
  | INST_BARRIER | INST_LOCK | INST_UNLOCK | INST_ATOMIC
  | INST_SYSCALL | INST_RET | INST_NOP

section \<open>Instruction decode\<close>

text \<open>
  \<^verbatim>\<open>int cpu_decode_instruction(instruction_t *inst, instruction_type_t *type)\<close>.
  The second argument is what \<^verbatim>\<open>*type\<close> holds before the call (\<open>None\<close>: never
  written); the result pairs the returned status with what \<^verbatim>\<open>*type\<close> holds
  after it. The outer \<^verbatim>\<open>switch\<close> lists the families in the order
  0x0, 0x1, 0x2, 0x3, 0x8, 0x6, 0x9, 0x7; every \<^verbatim>\<open>default\<close> returns -1 without
  writing \<^verbatim>\<open>*type\<close>.
\<close>

definition cpu_decode_instruction ::
  "instruction_t \<Rightarrow> instruction_type_t option \<Rightarrow> int \<times> instruction_type_t option" where
  "cpu_decode_instruction inst ty =
    (if opcode inst = 0x0 then
       (if funct inst = 0x0 then (0, Some INST_ADD)
        else if funct inst = 0x1 then (0, Some INST_SUB)
        else if funct inst = 0x2 then (0, Some INST_MUL)
        else if funct inst = 0x3 then (0, Some INST_DIV)
        else if funct inst = 0x4 then (0, Some INST_MOD)
        else if funct inst = 0x5 then (0, Some INST_AND)
        else if funct inst = 0x6 then (0, Some INST_OR)
        else if funct inst = 0x7 then (0, Some INST_XOR)
        else if funct inst = 0x8 then (0, Some INST_SHL)
        else if funct inst = 0x9 then (0, Some INST_SHR)
        else if funct inst = 0xA then (0, Some INST_ROT)
        else if funct inst = 0xB then (0, Some INST_CMP)
        else if funct inst = 0xC then (0, Some INST_CLZ)
        else if funct inst = 0xD then (0, Some INST_CTZ)
        else if funct inst = 0xE then (0, Some INST_POPCNT)
        else (- 1, ty))
     else if opcode inst = 0x1 then
       (if funct inst = 0x9 then (0, Some INST_LOAD)
        else (- 1, ty))
     else if opcode inst = 0x2 then
       (if funct inst = 0x0 then (0, Some INST_STORE)
        else (- 1, ty))
     else if opcode inst = 0x3 then
       (if funct inst = 0x0 then (0, Some INST_BEQ)
        else if funct inst = 0x1 then (0, Some INST_BNE)
        else if funct inst = 0x2 then (0, Some INST_BLT)
        else if funct inst = 0x3 then (0, Some INST_BLE)
        else if funct inst = 0x4 then (0, Some INST_BGT)
        else if funct inst = 0x5 then (0, Some INST_BGE)
        else (- 1, ty))
     else if opcode inst = 0x8 then
       (if funct inst = 0x0 then (0, Some INST_FADD)
        else if funct inst = 0x1 then (0, Some INST_FSUB)
        else if funct inst = 0x2 then (0, Some INST_FMUL)
        else if funct inst = 0x3 then (0, Some INST_FDIV)
        else if funct inst = 0x4 then (0, Some INST_FSQRT)
        else (- 1, ty))
     else if opcode inst = 0x6 then
       (if funct inst = 0x0 then (0, Some INST_VADD)
        else if funct inst = 0x1 then (0, Some INST_VSUB)
        else if funct inst = 0x2 then (0, Some INST_VMUL)
        else if funct inst = 0x3 then (0, Some INST_VDIV)
        else (- 1, ty))
     else if opcode inst = 0x9 then
       (if funct inst = 0x0 then (0, Some INST_CONV)
        else if funct inst = 0x2 then (0, Some INST_RELU)
        else if funct inst = 0x5 then (0, Some INST_SOFTMAX)
        else (- 1, ty))
     else if opcode inst = 0x7 then
       (if funct inst = 0x0 then (0, Some INST_BARRIER)
        else if funct inst = 0x1 then (0, Some INST_LOCK)
        else if funct inst = 0x2 then (0, Some INST_UNLOCK)
        else if funct inst = 0x3 then (0, Some INST_ATOMIC)
        else (- 1, ty))
     else (- 1, ty))"

text \<open>
  The decode table as the specification describes it: a lookup keyed by the pair
  (opcode, funct), one entry per operation the source's comments name.
\<close>

definition decode_table :: "((u4 \<times> u4) \<times> instruction_type_t) list" where
  "decode_table =
    [((0x0, 0x0), INST_ADD), ((0x0, 0x1), INST_SUB), ((0x0, 0x2), INST_MUL),
     ((0x0, 0x3), INST_DIV), ((0x0, 0x4), INST_MOD), ((0x0, 0x5), INST_AND),
     ((0x0, 0x6), INST_OR), ((0x0, 0x7), INST_XOR), ((0x0, 0x8), INST_SHL),
     ((0x0, 0x9), INST_SHR), ((0x0, 0xA), INST_ROT), ((0x0, 0xB), INST_CMP),
     ((0x0, 0xC), INST_CLZ), ((0x0, 0xD), INST_CTZ), ((0x0, 0xE), INST_POPCNT),
     ((0x1, 0x9), INST_LOAD),
     ((0x2, 0x0), INST_STORE),
     ((0x3, 0x0), INST_BEQ), ((0x3, 0x1), INST_BNE), ((0x3, 0x2), INST_BLT),
     ((0x3, 0x3), INST_BLE), ((0x3, 0x4), INST_BGT), ((0x3, 0x5), INST_BGE),
     ((0x8, 0x0), INST_FADD), ((0x8, 0x1), INST_FSUB), ((0x8, 0x2), INST_FMUL),
     ((0x8, 0x3), INST_FDIV), ((0x8, 0x4), INST_FSQRT),
     ((0x6, 0x0), INST_VADD), ((0x6, 0x1), INST_VSUB), ((0x6, 0x2), INST_VMUL),
     ((0x6, 0x3), INST_VDIV),
     ((0x9, 0x0), INST_CONV), ((0x9, 0x2), INST_RELU), ((0x9, 0x5), INST_SOFTMAX),
     ((0x7, 0x0), INST_BARRIER), ((0x7, 0x1), INST_LOCK), ((0x7, 0x2), INST_UNLOCK),
     ((0x7, 0x3), INST_ATOMIC)]"

section \<open>What C leaves to the platform\<close>

text \<open>
  Two things the source uses are not fixed by its text. The rotate computes
  \<^verbatim>\<open>rs1_val >> (64 - (rs2_val & 0x3F))\<close>, a shift by 64 when the masked amount is 0,
  whose value C does not define; and the floating-point unit uses the C operators
  \<^verbatim>\<open>+ - * /\<close> and \<^verbatim>\<open>sqrtf\<close> on \<^verbatim>\<open>float\<close>. Both are parameters of the model: every
  theorem below holds whatever values they produce.
\<close>

record platform =
  shr64_undef :: "u64 \<Rightarrow> u64 \<Rightarrow> u64"
  fadd :: "f32 \<Rightarrow> f32 \<Rightarrow> f32"
  fsub :: "f32 \<Rightarrow> f32 \<Rightarrow> f32"
  fmul :: "f32 \<Rightarrow> f32 \<Rightarrow> f32"
  fdiv :: "f32 \<Rightarrow> f32 \<Rightarrow> f32"
  sqrtf :: "f32 \<Rightarrow> f32"

text \<open>\<^verbatim>\<open>x >> k\<close> on \<^verbatim>\<open>uint64_t\<close>: a logical shift for \<open>k < 64\<close>.\<close>

definition shr64 :: "platform \<Rightarrow> u64 \<Rightarrow> u64 \<Rightarrow> u64" where
  "shr64 P x k = (if k < 64 then drop_bit (unat k) x else shr64_undef P x k)"

text \<open>Classification of binary32 encodings and the two C comparisons the source makes.\<close>

definition f32_is_zero :: "f32 \<Rightarrow> bool" where
  "f32_is_zero x = (x AND 0x7FFFFFFF = 0)"

definition f32_is_nan :: "f32 \<Rightarrow> bool" where
  "f32_is_nan x = (x AND 0x7F800000 = 0x7F800000 \<and> x AND 0x007FFFFF \<noteq> 0)"

definition f32_is_inf :: "f32 \<Rightarrow> bool" where
  "f32_is_inf x = (x AND 0x7FFFFFFF = 0x7F800000)"

definition f32_is_finite :: "f32 \<Rightarrow> bool" where
  "f32_is_finite x = (x AND 0x7F800000 \<noteq> 0x7F800000)"

text \<open>\<^verbatim>\<open>x != 0.0f\<close>: false for +0 and -0 only (a NaN compares unequal to everything).\<close>

definition f32_ne_zero :: "f32 \<Rightarrow> bool" where
  "f32_ne_zero x = (\<not> f32_is_zero x)"

text \<open>\<^verbatim>\<open>x >= 0.0f\<close>: false for a NaN, true for both zeros and for every positive value.\<close>

definition f32_ge_zero :: "f32 \<Rightarrow> bool" where
  "f32_ge_zero x = (\<not> f32_is_nan x \<and> (f32_is_zero x \<or> \<not> bit x 31))"

section \<open>Execution units\<close>

text \<open>
  A counted loop \<^verbatim>\<open>for (i = 0; i < n; i++) body\<close> on a state: the body runs for
  \<open>i = 0\<close> first and \<open>i = n - 1\<close> last.
\<close>

primrec for_loop :: "nat \<Rightarrow> (nat \<Rightarrow> 's \<Rightarrow> 's) \<Rightarrow> 's \<Rightarrow> 's" where
  "for_loop 0 body s = s"
| "for_loop (Suc n) body s = body n (for_loop n body s)"

text \<open>
  The \<^verbatim>\<open>switch (inst->funct)\<close> of \<^verbatim>\<open>cpu_execute_arithmetic\<close>: \<open>Some\<close> the value of
  \<^verbatim>\<open>result\<close> at the \<^verbatim>\<open>break\<close>, \<open>None\<close> where the source returns -1 from inside
  the switch. Division and remainder are those of \<^verbatim>\<open>uint64_t\<close>.
\<close>

definition arithmetic_switch :: "platform \<Rightarrow> u4 \<Rightarrow> u64 \<Rightarrow> u64 \<Rightarrow> u64 option" where
  "arithmetic_switch P f rs1_val rs2_val =
    (if f = 0x0 then Some (rs1_val + rs2_val)
     else if f = 0x1 then Some (rs1_val - rs2_val)
     else if f = 0x2 then Some (rs1_val * rs2_val)
     else if f = 0x3 then (if rs2_val \<noteq> 0 then Some (rs1_val div rs2_val) else None)
     else if f = 0x4 then (if rs2_val \<noteq> 0 then Some (rs1_val mod rs2_val) else None)
     else if f = 0x5 then Some (rs1_val AND rs2_val)
     else if f = 0x6 then Some (rs1_val OR rs2_val)
     else if f = 0x7 then Some (rs1_val XOR rs2_val)
     else if f = 0x8 then Some (push_bit (unat (rs2_val AND 0x3F)) rs1_val)
     else if f = 0x9 then Some (drop_bit (unat (rs2_val AND 0x3F)) rs1_val)
     else if f = 0xA then
       Some (push_bit (unat (rs2_val AND 0x3F)) rs1_val OR
             shr64 P rs1_val (64 - (rs2_val AND 0x3F)))
     else None)"

text \<open>The flag update after the store: bit 0 is Zero, bit 1 is Sign.\<close>

definition update_flags :: "u64 \<Rightarrow> u64 \<Rightarrow> u64" where
  "update_flags result fl =
    (let fl1 = (if result = 0 then fl OR 0x01 else fl AND NOT 0x01)
     in if result AND 0x8000000000000000 \<noteq> 0 then fl1 OR 0x02 else fl1 AND NOT 0x02)"

text \<open>
  \<^verbatim>\<open>int cpu_execute_arithmetic(cpu_core_t *core, instruction_t *inst)\<close>: the returned
  status and the core after the call.
\<close>

definition cpu_execute_arithmetic :: "platform \<Rightarrow> cpu_core_t \<Rightarrow> instruction_t \<Rightarrow> int \<times> cpu_core_t" where
  "cpu_execute_arithmetic P core inst =
    (let rs1_val = gpr (regs core) (ucast (rs1 inst));
         rs2_val = gpr (regs core) (ucast (rs2 inst))
     in case arithmetic_switch P (funct inst) rs1_val rs2_val of
          None \<Rightarrow> (- 1, core)
        | Some result \<Rightarrow>
            (0, core\<lparr>regs := (regs core)
                  \<lparr>gpr := (gpr (regs core))(ucast (rs1 inst) := result),
                   flags := update_flags result (flags (regs core))\<rparr>\<rparr>))"

text \<open>\<^verbatim>\<open>int cpu_execute_floating_point(cpu_core_t *core, instruction_t *inst)\<close>.\<close>

definition floating_point_switch :: "platform \<Rightarrow> u4 \<Rightarrow> f32 \<Rightarrow> f32 \<Rightarrow> f32 option" where
  "floating_point_switch P f rs1_val rs2_val =
    (if f = 0x0 then Some (fadd P rs1_val rs2_val)
     else if f = 0x1 then Some (fsub P rs1_val rs2_val)
     else if f = 0x2 then Some (fmul P rs1_val rs2_val)
     else if f = 0x3 then
       (if f32_ne_zero rs2_val then Some (fdiv P rs1_val rs2_val) else None)
     else if f = 0x4 then
       (if f32_ge_zero rs1_val then Some (sqrtf P rs1_val) else None)
     else None)"

definition cpu_execute_floating_point :: "platform \<Rightarrow> cpu_core_t \<Rightarrow> instruction_t \<Rightarrow> int \<times> cpu_core_t" where
  "cpu_execute_floating_point P core inst =
    (let rs1_val = fpr (regs core) (ucast (rs1 inst));
         rs2_val = fpr (regs core) (ucast (rs2 inst))
     in case floating_point_switch P (funct inst) rs1_val rs2_val of
          None \<Rightarrow> (- 1, core)
        | Some result \<Rightarrow>
            (0, core\<lparr>regs := (regs core)
                  \<lparr>fpr := (fpr (regs core))(ucast (rs1 inst) := result)\<rparr>\<rparr>))"

text \<open>
  \<^verbatim>\<open>int cpu_execute_vector(cpu_core_t *core, instruction_t *inst)\<close>: 64 byte-wide
  steps on the vector register array. \<^verbatim>\<open>vd\<close> and \<^verbatim>\<open>v1\<close> are the same row
  \<^verbatim>\<open>vector[rs1]\<close> (and \<^verbatim>\<open>v2\<close> too when \<open>rs1 = rs2\<close>), so each step reads the
  current array and writes one byte of it.
\<close>

definition vector_byte_step ::
  "(u8 \<Rightarrow> u8 \<Rightarrow> u8) \<Rightarrow> 5 word \<Rightarrow> 5 word \<Rightarrow> nat \<Rightarrow> (5 word \<Rightarrow> 6 word \<Rightarrow> u8) \<Rightarrow> (5 word \<Rightarrow> 6 word \<Rightarrow> u8)" where
  "vector_byte_step opr r1 r2 i v =
    v(r1 := (v r1)(of_nat i := opr (v r1 (of_nat i)) (v r2 (of_nat i))))"

definition cpu_execute_vector :: "cpu_core_t \<Rightarrow> instruction_t \<Rightarrow> int \<times> cpu_core_t" where
  "cpu_execute_vector core inst =
    (let r1 = ucast (rs1 inst); r2 = ucast (rs2 inst);
         run = (\<lambda>opr. (0, core\<lparr>regs := (regs core)
                  \<lparr>vector := for_loop 64 (vector_byte_step opr r1 r2) (vector (regs core))\<rparr>\<rparr>))
     in if funct inst = 0x0 then run (\<lambda>a b. a + b)
        else if funct inst = 0x1 then run (\<lambda>a b. a - b)
        else if funct inst = 0x2 then run (\<lambda>a b. a * b)
        else if funct inst = 0x3 then run (\<lambda>a b. if b \<noteq> 0 then a div b else 0)
        else (- 1, core))"

text \<open>
  \<^verbatim>\<open>cpu_execute_ai_ml\<close> and \<^verbatim>\<open>cpu_execute_mimd\<close> print a line and return; the core
  is not touched.
\<close>

definition cpu_execute_ai_ml :: "cpu_core_t \<Rightarrow> instruction_t \<Rightarrow> int \<times> cpu_core_t" where
  "cpu_execute_ai_ml core inst =
    (if funct inst = 0x0 then (0, core)
     else if funct inst = 0x2 then (0, core)
     else if funct inst = 0x5 then (0, core)
     else (- 1, core))"

definition cpu_execute_mimd :: "cpu_core_t \<Rightarrow> instruction_t \<Rightarrow> int \<times> cpu_core_t" where
  "cpu_execute_mimd core inst =
    (if funct inst = 0x0 then (0, core)
     else if funct inst = 0x1 then (0, core)
     else if funct inst = 0x2 then (0, core)
     else if funct inst = 0x3 then (0, core)
     else (- 1, core))"

text \<open>
  \<^verbatim>\<open>int cpu_execute_instruction(cpu_core_t *core, instruction_t *inst)\<close>: decode into
  the local \<^verbatim>\<open>type\<close>, then \<^verbatim>\<open>switch (type)\<close>. The types listed are the ones the
  source's switch has a \<^verbatim>\<open>case\<close> for; all others reach \<^verbatim>\<open>default: return -1\<close>.
  A decode with status 0 has always written \<^verbatim>\<open>type\<close>.
\<close>

definition cpu_execute_instruction :: "platform \<Rightarrow> cpu_core_t \<Rightarrow> instruction_t \<Rightarrow> int \<times> cpu_core_t" where
  "cpu_execute_instruction P core inst =
    (case cpu_decode_instruction inst None of
       (st, ty) \<Rightarrow>
         if st \<noteq> 0 then (- 1, core)
         else (case ty of
             None \<Rightarrow> (- 1, core)
           | Some t \<Rightarrow>
               if t \<in> set [INST_ADD, INST_SUB, INST_MUL, INST_DIV, INST_MOD, INST_AND,
                            INST_OR, INST_XOR, INST_SHL, INST_SHR, INST_ROT]
               then cpu_execute_arithmetic P core inst
               else if t \<in> set [INST_FADD, INST_FSUB, INST_FMUL, INST_FDIV, INST_FSQRT]
               then cpu_execute_floating_point P core inst
               else if t \<in> set [INST_VADD, INST_VSUB, INST_VMUL, INST_VDIV]
               then cpu_execute_vector core inst
               else if t \<in> set [INST_CONV, INST_RELU, INST_SOFTMAX]
               then cpu_execute_ai_ml core inst
               else if t \<in> set [INST_BARRIER, INST_LOCK, INST_UNLOCK, INST_ATOMIC]
               then cpu_execute_mimd core inst
               else (- 1, core)))"

section \<open>vector-operations.c\<close>

text \<open>
  \<^verbatim>\<open>alpha_ahb_vector_t\<close>: 64 bytes. \<^verbatim>\<open>vector_result_t\<close>: the fields \<^verbatim>\<open>result\<close>,
  \<^verbatim>\<open>flags\<close> and \<^verbatim>\<open>cycles\<close>, prefixed here because \<open>flags\<close> is a field of the
  register file already.
\<close>

record alpha_ahb_vector_t =
  data :: "6 word \<Rightarrow> u8"

record vector_result_t =
  vr_result :: alpha_ahb_vector_t
  vr_flags :: u32
  vr_cycles :: u32

text \<open>
  \<^verbatim>\<open>memcpy(&val, &v->data[off], sizeof(int32_t))\<close> and its converse, on a little-endian
  host: the byte at \<open>off\<close> is the least significant one.
\<close>

definition load32 :: "alpha_ahb_vector_t \<Rightarrow> nat \<Rightarrow> u32" where
  "load32 v off =
     ucast (data v (of_nat off))
     OR push_bit 8 (ucast (data v (of_nat (off + 1))))
     OR push_bit 16 (ucast (data v (of_nat (off + 2))))
     OR push_bit 24 (ucast (data v (of_nat (off + 3))))"

definition store32 :: "alpha_ahb_vector_t \<Rightarrow> nat \<Rightarrow> u32 \<Rightarrow> alpha_ahb_vector_t" where
  "store32 v off w =
     v\<lparr>data := (data v)
        (of_nat off := ucast w,
         of_nat (off + 1) := ucast (drop_bit 8 w),
         of_nat (off + 2) := ucast (drop_bit 16 w),
         of_nat (off + 3) := ucast (drop_bit 24 w))\<rparr>"

definition vector_init_zero :: alpha_ahb_vector_t where
  "vector_init_zero = \<lparr>data = (\<lambda>_. 0)\<rparr>"

text \<open>
  \<^verbatim>\<open>vector_init_int32_array(array, count)\<close>: the pointer \<^verbatim>\<open>array\<close> is the function
  from an index to the element there; at most 16 elements are copied.
\<close>

definition vector_init_int32_array :: "(nat \<Rightarrow> u32) \<Rightarrow> nat \<Rightarrow> alpha_ahb_vector_t" where
  "vector_init_int32_array array count =
     (let elements = (if count < 16 then count else 16)
      in for_loop elements (\<lambda>i v. store32 v (i * 4) (array i)) vector_init_zero)"

text \<open>\<^verbatim>\<open>vector_extract_int32_array(vec, array, count)\<close>: the elements written to \<^verbatim>\<open>array\<close>.\<close>

definition vector_extract_int32_array :: "alpha_ahb_vector_t \<Rightarrow> nat \<Rightarrow> u32 list" where
  "vector_extract_int32_array vec count =
     (let elements = (if count < 16 then count else 16)
      in map (\<lambda>i. load32 vec (i * 4)) [0..<elements])"

text \<open>
  \<^verbatim>\<open>vector_add_int32\<close>. The local \<^verbatim>\<open>result\<close> is not initialised beyond \<^verbatim>\<open>cycles\<close>
  and \<^verbatim>\<open>flags\<close>; the first argument is what its \<^verbatim>\<open>result\<close> bytes hold at entry.
  \<^verbatim>\<open>val_a + val_b\<close> on \<^verbatim>\<open>int32_t\<close> is taken to wrap around, as two's-complement
  hardware does and as the repository's tests expect of overflowing additions.
\<close>

definition vector_add_int32_body ::
  "alpha_ahb_vector_t \<Rightarrow> alpha_ahb_vector_t \<Rightarrow> nat \<Rightarrow> vector_result_t \<Rightarrow> vector_result_t" where
  "vector_add_int32_body a b i res =
     (let val_a = load32 a (i * 4);
          val_b = load32 b (i * 4);
          val_result = val_a + val_b;
          res1 = res\<lparr>vr_result := store32 (vr_result res) (i * 4) val_result\<rparr>
      in if (0 <s val_a \<and> 0 <s val_b \<and> val_result <s 0) \<or>
            (val_a <s 0 \<and> val_b <s 0 \<and> 0 <s val_result)
         then res1\<lparr>vr_flags := vr_flags res1 OR push_bit i 1\<rparr>
         else res1)"

definition vector_add_int32 ::
  "alpha_ahb_vector_t \<Rightarrow> alpha_ahb_vector_t \<Rightarrow> alpha_ahb_vector_t \<Rightarrow> vector_result_t" where
  "vector_add_int32 uninit a b =
     for_loop 16 (vector_add_int32_body a b)
       \<lparr>vr_result = uninit, vr_flags = 0, vr_cycles = 2\<rparr>"

text \<open>
  \<^verbatim>\<open>vector_mul_int32\<close>: the product is formed in \<^verbatim>\<open>int64_t\<close>, compared with
  \<^verbatim>\<open>INT32_MAX\<close> and \<^verbatim>\<open>INT32_MIN\<close>, clamped, and narrowed to \<^verbatim>\<open>int32_t\<close>.
\<close>

definition vector_mul_int32_body ::
  "alpha_ahb_vector_t \<Rightarrow> alpha_ahb_vector_t \<Rightarrow> nat \<Rightarrow> vector_result_t \<Rightarrow> vector_result_t" where
  "vector_mul_int32_body a b i res =
     (let val_a = load32 a (i * 4);
          val_b = load32 b (i * 4);
          val_result = (scast val_a :: u64) * (scast val_b :: u64);
          ovf = (2147483647 <s val_result \<or> val_result <s - 2147483648);
          res1 = (if ovf then res\<lparr>vr_flags := vr_flags res OR push_bit i 1\<rparr> else res);
          val_result1 = (if ovf then (if 0 <s val_result then 2147483647 else - 2147483648)
                         else val_result);
          val_result_32 = (ucast val_result1 :: u32)
      in res1\<lparr>vr_result := store32 (vr_result res1) (i * 4) val_result_32\<rparr>)"

definition vector_mul_int32 ::
  "alpha_ahb_vector_t \<Rightarrow> alpha_ahb_vector_t \<Rightarrow> alpha_ahb_vector_t \<Rightarrow> vector_result_t" where
  "vector_mul_int32 uninit a b =
     for_loop 16 (vector_mul_int32_body a b)
       \<lparr>vr_result = uninit, vr_flags = 0, vr_cycles = 4\<rparr>"

section \<open>neural-network.c\<close>

type_synonym npu_weight_t = "8 word"
type_synonym npu_activation_t = "16 word"
type_synonym npu_accumulator_t = "32 word"

datatype activation_type_t =
  ACTIVATION_RELU | ACTIVATION_SIGMOID | ACTIVATION_TANH | ACTIVATION_SOFTMAX
  | ACTIVATION_LEAKY_RELU

datatype layer_type_t =
  LAYER_DENSE | LAYER_CONV2D | LAYER_MAXPOOL2D | LAYER_AVGPOOL2D | LAYER_DROPOUT
  | LAYER_BATCHNORM

text \<open>
  \<^verbatim>\<open>npu_layer_t\<close>. The C fields \<^verbatim>\<open>type\<close> and \<^verbatim>\<open>activation\<close> are \<open>layer_type\<close> and
  \<open>layer_activation\<close> here (\<open>activation\<close> is a field of the processing element too). The
  pointers \<^verbatim>\<open>weights\<close> and \<^verbatim>\<open>biases\<close> are the functions from an index to the
  element stored there.
\<close>

record npu_layer_t =
  layer_type :: layer_type_t
  input_size :: u32
  output_size :: u32
  kernel_size :: u32
  stride :: u32
  padding :: u32
  layer_activation :: activation_type_t
  weights :: "nat \<Rightarrow> npu_weight_t"
  biases :: "nat \<Rightarrow> npu_activation_t"
  dropout_rate :: f32
  learning_rate :: f32

record npu_pe_t =
  pe_id :: u32
  weight :: npu_weight_t
  activation :: npu_activation_t
  accumulator :: npu_accumulator_t
  active :: bool

text \<open>\<^verbatim>\<open>npu_controller_t\<close>: \<^verbatim>\<open>NPU_PE_COUNT\<close> = 1024 processing elements, indexed by
  ten bits.\<close>

record npu_controller_t =
  processing_elements :: "10 word \<Rightarrow> npu_pe_t"
  current_model :: "nat option"
  current_layer :: u32
  training_mode :: bool
  global_learning_rate :: f32

text \<open>
  The sigmoid and tanh activations leave the integers for \<^verbatim>\<open>expf\<close> and \<^verbatim>\<open>tanhf\<close>
  when \<open>-8 \<le> x \<le> 8\<close>; what that floating-point path returns is a parameter.
\<close>

record activation_math =
  sigmoid_float_path :: "npu_activation_t \<Rightarrow> npu_activation_t"
  tanh_float_path :: "npu_activation_t \<Rightarrow> npu_activation_t"

definition npu_activation_relu :: "npu_activation_t \<Rightarrow> npu_activation_t" where
  "npu_activation_relu x = (if 0 <s x then x else 0)"

definition npu_activation_sigmoid :: "activation_math \<Rightarrow> npu_activation_t \<Rightarrow> npu_activation_t" where
  "npu_activation_sigmoid M x =
     (if x <s - 8 then 0
      else if 8 <s x then 32767
      else sigmoid_float_path M x)"

definition npu_activation_tanh :: "activation_math \<Rightarrow> npu_activation_t \<Rightarrow> npu_activation_t" where
  "npu_activation_tanh M x =
     (if x <s - 8 then - 32767
      else if 8 <s x then 32767
      else tanh_float_path M x)"

text \<open>\<^verbatim>\<open>x / 10\<close> is C's division on the promoted \<^verbatim>\<open>int\<close>, which truncates towards
  zero.\<close>

definition npu_activation_leaky_relu :: "npu_activation_t \<Rightarrow> npu_activation_t" where
  "npu_activation_leaky_relu x = (if 0 <s x then x else word_of_int (sint x sdiv 10))"

definition npu_apply_activation ::
  "activation_math \<Rightarrow> npu_activation_t \<Rightarrow> activation_type_t \<Rightarrow> npu_activation_t" where
  "npu_apply_activation M x act =
     (case act of
        ACTIVATION_RELU \<Rightarrow> npu_activation_relu x
      | ACTIVATION_SIGMOID \<Rightarrow> npu_activation_sigmoid M x
      | ACTIVATION_TANH \<Rightarrow> npu_activation_tanh M x
      | ACTIVATION_LEAKY_RELU \<Rightarrow> npu_activation_leaky_relu x
      | ACTIVATION_SOFTMAX \<Rightarrow> x)"

text \<open>
  \<^verbatim>\<open>npu_dense_forward\<close>. The only way the function does not return is the integer
  division \<^verbatim>\<open>NPU_PE_COUNT / layer->output_size\<close> with a zero divisor.
\<close>

datatype c_fault = DivisionByZero

text \<open>The first loop: every processing element is reset.\<close>

definition npu_reset_pe :: "nat \<Rightarrow> npu_controller_t \<Rightarrow> npu_controller_t" where
  "npu_reset_pe i npu =
     npu\<lparr>processing_elements := (processing_elements npu)
        (of_nat i := (processing_elements npu (of_nat i))\<lparr>accumulator := 0, active := False\<rparr>)\<rparr>"

text \<open>
  The body of the inner loop, for output \<open>out_idx\<close> and counter \<open>pe_idx\<close>; the state is
  the controller and the local \<^verbatim>\<open>sum\<close>. Index arithmetic is that of \<^verbatim>\<open>uint32_t\<close>;
  the product is formed in the 32-bit accumulator type.
\<close>

definition npu_dense_inner ::
  "npu_layer_t \<Rightarrow> (nat \<Rightarrow> npu_activation_t) \<Rightarrow> u32 \<Rightarrow> u32 \<Rightarrow> nat \<Rightarrow>
     npu_controller_t \<times> npu_accumulator_t \<Rightarrow> npu_controller_t \<times> npu_accumulator_t" where
  "npu_dense_inner layer input pe_per_output out_idx i st =
     (let npu = fst st; sum = snd st;
          pe_idx = (of_nat i :: u32);
          pe_id = (out_idx * pe_per_output + pe_idx) mod 1024;
          input_idx = pe_idx
      in if input_idx < input_size layer then
           (let pe = processing_elements npu (ucast pe_id);
                pe1 = pe\<lparr>weight := weights layer (unat (out_idx * input_size layer + input_idx))\<rparr>;
                pe2 = pe1\<lparr>activation := input (unat input_idx)\<rparr>;
                pe3 = pe2\<lparr>accumulator := scast (weight pe2) * scast (activation pe2)\<rparr>;
                pe4 = pe3\<lparr>active := True\<rparr>
            in (npu\<lparr>processing_elements := (processing_elements npu)(ucast pe_id := pe4)\<rparr>,
                sum + accumulator pe4))
         else (npu, sum))"

text \<open>
  The body of the outer loop. The inner loop runs while
  \<^verbatim>\<open>pe_idx < pe_per_output && pe_idx < layer->input_size\<close>, that is for the first
  \<open>min pe_per_output input_size\<close> values of \<^verbatim>\<open>pe_idx\<close>.
\<close>

definition npu_dense_outer ::
  "activation_math \<Rightarrow> npu_layer_t \<Rightarrow> (nat \<Rightarrow> npu_activation_t) \<Rightarrow> u32 \<Rightarrow> nat \<Rightarrow>
     npu_controller_t \<times> (nat \<Rightarrow> npu_activation_t) \<Rightarrow> npu_controller_t \<times> (nat \<Rightarrow> npu_activation_t)" where
  "npu_dense_outer M layer input pe_per_output j st =
     (let npu = fst st; output = snd st;
          out_idx = (of_nat j :: u32);
          inner = for_loop (min (unat pe_per_output) (unat (input_size layer)))
                    (npu_dense_inner layer input pe_per_output out_idx) (npu, 0);
          sum = snd inner + scast (biases layer (unat out_idx))
      in (fst inner,
          output(unat out_idx :=
            npu_apply_activation M (ucast sum :: npu_activation_t) (layer_activation layer))))"

text \<open>
  \<^verbatim>\<open>void npu_dense_forward(npu, layer, input, output)\<close>: the controller and the
  \<^verbatim>\<open>output\<close> array after the call. \<^verbatim>\<open>input\<close> and \<^verbatim>\<open>output\<close> are pointers, taken as
  the functions from an index to the element there.
\<close>

definition npu_dense_forward ::
  "activation_math \<Rightarrow> npu_controller_t \<Rightarrow> npu_layer_t \<Rightarrow> (nat \<Rightarrow> npu_activation_t) \<Rightarrow>
     (nat \<Rightarrow> npu_activation_t) \<Rightarrow> c_fault + npu_controller_t \<times> (nat \<Rightarrow> npu_activation_t)" where
  "npu_dense_forward M npu layer input output =
     (let npu1 = for_loop 1024 npu_reset_pe npu
      in if output_size layer = 0 then Inl DivisionByZero
         else
           (let q = 1024 div output_size layer;
                pe_per_output = (if q = 0 then 1 else q)
            in Inr (for_loop (unat (output_size layer))
                      (npu_dense_outer M layer input pe_per_output) (npu1, output))))"

text \<open>
  The dense layer as the specification words it:
  \<open>output[j] = activation(\<Sum>\<^sub>i input[i] \<sqdot> weight[i][j] + bias[j])\<close>, the sum over
  every input index, accumulated in the 32-bit accumulator type and narrowed at the
  activation; \<open>weight[i][j]\<close> is the source's \<^verbatim>\<open>weights[j * input_size + i]\<close>.
\<close>

definition dense_layer_spec ::
  "activation_math \<Rightarrow> npu_layer_t \<Rightarrow> (nat \<Rightarrow> npu_activation_t) \<Rightarrow> nat \<Rightarrow> npu_activation_t" where
  "dense_layer_spec M layer input j =
     npu_apply_activation M
       (ucast ((\<Sum>i<unat (input_size layer).
                  (scast (weights layer (j * unat (input_size layer) + i)) :: npu_accumulator_t)
                  * scast (input i))
               + scast (biases layer j)) :: npu_activation_t)
       (layer_activation layer)"

text \<open>
  \<^verbatim>\<open>npu_init\<close>, when the allocation succeeds. \<^verbatim>\<open>global_learning_rate\<close> is the binary32
  encoding of \<^verbatim>\<open>0.001f\<close>.
\<close>

definition npu_init :: npu_controller_t where
  "npu_init =
     \<lparr>processing_elements =
        (\<lambda>i. \<lparr>pe_id = ucast i, weight = 0, activation = 0, accumulator = 0, active = False\<rparr>),
      current_model = None, current_layer = 0, training_mode = False,
      global_learning_rate = 0x3A83126F\<rparr>"

text \<open>
  Two dense layers to run the model on: the specification's example (two inputs, two
  outputs, identity weights, zero biases, ReLU), and a layer of two inputs and 1024
  outputs whose weights are all 1.
\<close>

definition identity_layer :: npu_layer_t where
  "identity_layer =
     \<lparr>layer_type = LAYER_DENSE, input_size = 2, output_size = 2, kernel_size = 0,
      stride = 0, padding = 0, layer_activation = ACTIVATION_RELU,
      weights = nth [1, 0, 0, 1], biases = nth [0, 0],
      dropout_rate = 0, learning_rate = 0x3A83126F\<rparr>"

definition wide_layer :: npu_layer_t where
  "wide_layer =
     \<lparr>layer_type = LAYER_DENSE, input_size = 2, output_size = 1024, kernel_size = 0,
      stride = 0, padding = 0, layer_activation = ACTIVATION_RELU,
      weights = (\<lambda>_. 1), biases = (\<lambda>_. 0),
      dropout_rate = 0, learning_rate = 0x3A83126F\<rparr>"

section \<open>Core initialisation\<close>

text \<open>
  The body of the core loop of \<^verbatim>\<open>cpu_init\<close>, for core \<open>i\<close>: the register file is
  cleared by \<^verbatim>\<open>memset\<close> before \<^verbatim>\<open>pc\<close>, \<^verbatim>\<open>sp\<close> and \<^verbatim>\<open>fp\<close> are set; only the
  \<^verbatim>\<open>size\<close> of each cache is assigned, the other cache fields keep what the allocation
  held.
\<close>

definition zero_regs :: register_file_t where
  "zero_regs = \<lparr>gpr = (\<lambda>_. 0), fpr = (\<lambda>_. 0), vector = (\<lambda>_ _. 0),
                pc = 0, sp = 0, fp = 0, lr = 0, flags = 0\<rparr>"

definition cpu_init_core :: "cpu_core_t \<Rightarrow> int \<Rightarrow> cpu_core_t" where
  "cpu_init_core core i =
    core\<lparr>core_id := i, thread_id := 0,
         regs := zero_regs\<lparr>pc := 0x1000, sp := 0x8000, fp := 0x8000\<rparr>,
         l1i := (l1i core)\<lparr>size := 256 * 1024\<rparr>,
         l1d := (l1d core)\<lparr>size := 256 * 1024\<rparr>,
         l2 := (l2 core)\<lparr>size := 16 * 1024 * 1024\<rparr>,
         l3 := (l3 core)\<lparr>size := 512 * 1024 * 1024\<rparr>,
         pipeline := replicate 12 0,
         pipeline_stage := 0,
         branch_predictor := replicate 1024 0,
         performance_counters := replicate 8 0\<rparr>"

text \<open>
  Concrete values to run the model on: an allocation holding zero bytes, and core 0 as
  \<^verbatim>\<open>cpu_init\<close> leaves it.
\<close>

definition zero_cache :: cache_t where
  "zero_cache = \<lparr>lines = [], size = 0, associativity = 0, line_size = 0, sets = 0\<rparr>"

definition zero_core :: cpu_core_t where
  "zero_core = \<lparr>core_id = 0, thread_id = 0, regs = zero_regs,
                l1i = zero_cache, l1d = zero_cache, l2 = zero_cache, l3 = zero_cache,
                pipeline = replicate 12 0, pipeline_stage = 0,
                branch_predictor = replicate 1024 0,
                performance_counters = replicate 8 0\<rparr>"

definition core0 :: cpu_core_t where
  "core0 = cpu_init_core zero_core 0"

text \<open>
  A platform to run the model on: the shift count is taken modulo 64, as the x86-64
  shift instructions do; the floating-point operations are placeholders that return
  their first operand, and no example below depends on what they return.
\<close>

definition sample_platform :: platform where
  "sample_platform =
    \<lparr>shr64_undef = (\<lambda>x k. drop_bit (unat (k AND 0x3F)) x),
     fadd = (\<lambda>a b. a), fsub = (\<lambda>a b. a), fmul = (\<lambda>a b. a), fdiv = (\<lambda>a b. a),
     sqrtf = (\<lambda>a. a)\<rparr>"

text \<open>
  Inputs for the examples: core 0 with \<open>R1 = R2 = 7\<close> and FLAGS bits 2 and 5 set; core 0
  with \<open>R1 = 7\<close>, \<open>R2 = 9\<close> and FLAGS bits 0, 2 and 5 set; and the instructions
  \<^verbatim>\<open>SUB R1, R2\<close>, \<^verbatim>\<open>DIV R1, R2\<close>, \<^verbatim>\<open>MOD R1, R2\<close> and \<^verbatim>\<open>FDIV F1, F2\<close>.
\<close>

definition demo_core :: cpu_core_t where
  "demo_core = core0\<lparr>regs := (regs core0)\<lparr>gpr := (gpr (regs core0))(1 := 7, 2 := 7),
                                            flags := 0x24\<rparr>\<rparr>"

definition demo_core2 :: cpu_core_t where
  "demo_core2 = core0\<lparr>regs := (regs core0)\<lparr>gpr := (gpr (regs core0))(1 := 7, 2 := 9),
                                             flags := 0x25\<rparr>\<rparr>"

definition sub_r1_r2 :: instruction_t where
  "sub_r1_r2 = \<lparr>opcode = 0x0, funct = 0x1, rs2 = 0x2, rs1 = 0x1, imm = 0, extended = 0\<rparr>"

definition div_r1_r2 :: instruction_t where
  "div_r1_r2 = \<lparr>opcode = 0x0, funct = 0x3, rs2 = 0x2, rs1 = 0x1, imm = 0, extended = 0\<rparr>"

definition mod_r1_r2 :: instruction_t where
  "mod_r1_r2 = \<lparr>opcode = 0x0, funct = 0x4, rs2 = 0x2, rs1 = 0x1, imm = 0, extended = 0\<rparr>"

definition fdiv_f1_f2 :: instruction_t where
  "fdiv_f1_f2 = \<lparr>opcode = 0x8, funct = 0x3, rs2 = 0x2, rs1 = 0x1, imm = 0, extended = 0\<rparr>"

section \<open>Properties of the decoder\<close>

lemma decode_table_keys: "length decode_table = 39 \<and> distinct (map fst decode_table)"
  by (simp add: decode_table_def)

text \<open>
  Claim C1. For every instruction, \<^verbatim>\<open>cpu_decode_instruction\<close> agrees with the lookup
  of (opcode, funct) in the decode table: on an entry of the table it returns 0 and
  sets the output type to the entry's operation; on each of the other pairs it returns
  the negative status -1 and leaves the output type as it was. No pair is classified as
  a NOP.
\<close>

theorem decode_follows_table:
  "cpu_decode_instruction inst ty =
     (case map_of decode_table (opcode inst, funct inst) of
        Some t \<Rightarrow> (0, Some t)
      | None \<Rightarrow> (- 1, ty))
   \<and> map_of decode_table (opcode inst, funct inst) \<noteq> Some INST_NOP"
  unfolding cpu_decode_instruction_def decode_table_def
  by simp

section \<open>Properties of the integer unit\<close>

lemma msb64: "(r AND 0x8000000000000000 \<noteq> 0) \<longleftrightarrow> bit (r :: u64) 63"
proof -
  have e: "r AND 0x8000000000000000 = r AND push_bit 63 1" by simp
  show ?thesis
    unfolding e by (simp only: bit_iff_and_push_bit_not_eq_0)
qed

lemma update_flags_zero: "bit (update_flags r fl) 0 \<longleftrightarrow> r = 0"
  by (auto simp: update_flags_def Let_def bit_simps)

lemma update_flags_sign: "bit (update_flags r fl) (Suc 0) \<longleftrightarrow> bit r 63"
  unfolding update_flags_def Let_def msb64
  by (auto simp: bit_simps)

lemma update_flags_other: "2 \<le> n \<Longrightarrow> bit (update_flags r fl) n \<longleftrightarrow> bit fl n"
  unfolding update_flags_def Let_def msb64
  by (auto simp: bit_simps dest: bit_imp_le_length)

text \<open>A successful call went through the store and the flag update.\<close>

lemma arithmetic_success:
  assumes "cpu_execute_arithmetic P core inst = (0, core')"
  obtains r where
    "arithmetic_switch P (funct inst) (gpr (regs core) (ucast (rs1 inst)))
        (gpr (regs core) (ucast (rs2 inst))) = Some r"
    "core' = core\<lparr>regs := (regs core)
                  \<lparr>gpr := (gpr (regs core))(ucast (rs1 inst) := r),
                   flags := update_flags r (flags (regs core))\<rparr>\<rparr>"
  using assms by (auto simp: cpu_execute_arithmetic_def Let_def split: option.splits)

text \<open>
  The calls that succeed are those with \<open>funct\<close> from 0x0 (ADD) to 0xA (ROT), apart from
  DIV and MOD with a zero divisor.
\<close>

lemma arithmetic_status:
  "fst (cpu_execute_arithmetic P core inst) =
     (if funct inst \<in> {0x0, 0x1, 0x2, 0x3, 0x4, 0x5, 0x6, 0x7, 0x8, 0x9, 0xA} \<and>
         \<not> ((funct inst = 0x3 \<or> funct inst = 0x4) \<and> gpr (regs core) (ucast (rs2 inst)) = 0)
      then 0 else - 1)"
  by (auto simp: cpu_execute_arithmetic_def arithmetic_switch_def Let_def)

text \<open>
  Claim C2. A DIV or MOD whose second source register holds zero returns the negative
  status -1 and leaves the whole core, the register file and FLAGS included, as it was.
\<close>

theorem div_mod_by_zero_is_atomic:
  "funct inst = 0x3 \<or> funct inst = 0x4 \<Longrightarrow> gpr (regs core) (ucast (rs2 inst)) = 0 \<Longrightarrow>
     cpu_execute_arithmetic P core inst = (- 1, core)"
  by (auto simp: cpu_execute_arithmetic_def arithmetic_switch_def)

theorem div_mod_by_zero_is_atomic_witness:
  "gpr (regs core0) (ucast (rs2 div_r1_r2)) = 0 \<and>
   cpu_execute_arithmetic sample_platform core0 div_r1_r2 = (- 1, core0) \<and>
   cpu_execute_arithmetic sample_platform core0 mod_r1_r2 = (- 1, core0)"
proof -
  have z: "gpr (regs core0) (ucast (rs2 div_r1_r2)) = 0"
    "gpr (regs core0) (ucast (rs2 mod_r1_r2)) = 0"
    by (simp_all add: core0_def cpu_init_core_def zero_regs_def)
  show ?thesis
    using div_mod_by_zero_is_atomic [of div_r1_r2 core0 sample_platform]
      div_mod_by_zero_is_atomic [of mod_r1_r2 core0 sample_platform] z
    by (simp add: div_r1_r2_def mod_r1_r2_def)
qed

text \<open>
  Claim C3. After an arithmetic or logic instruction that succeeds, bit 0 of FLAGS
  (Zero) is set exactly when the value now in \<open>gpr[rs1]\<close> is zero, and bit 1 (Sign) is set
  exactly when bit 63 of that value is 1.
\<close>

theorem flags_zero_sign_after_arithmetic:
  "cpu_execute_arithmetic P core inst = (0, core') \<Longrightarrow>
     (bit (flags (regs core')) 0 \<longleftrightarrow> gpr (regs core') (ucast (rs1 inst)) = 0) \<and>
     (bit (flags (regs core')) 1 \<longleftrightarrow> bit (gpr (regs core') (ucast (rs1 inst))) 63)"
  by (erule arithmetic_success) (simp add: update_flags_zero update_flags_sign)

lemma demo_sub_run:
  "cpu_execute_arithmetic sample_platform demo_core sub_r1_r2 =
     (0, demo_core\<lparr>regs := (regs demo_core)\<lparr>gpr := (gpr (regs demo_core))(1 := 0),
                                              flags := 0x25\<rparr>\<rparr>)"
  by (simp add: cpu_execute_arithmetic_def arithmetic_switch_def update_flags_def
      demo_core_def sub_r1_r2_def)

lemma demo_sub_run2:
  "cpu_execute_arithmetic sample_platform demo_core2 sub_r1_r2 =
     (0, demo_core2\<lparr>regs := (regs demo_core2)\<lparr>gpr := (gpr (regs demo_core2))(1 := - 2),
                                                flags := 0x26\<rparr>\<rparr>)"
  by (simp add: cpu_execute_arithmetic_def arithmetic_switch_def update_flags_def
      demo_core2_def sub_r1_r2_def)

theorem flags_zero_sign_after_arithmetic_witness:
  "cpu_execute_arithmetic sample_platform demo_core sub_r1_r2 =
     (0, demo_core\<lparr>regs := (regs demo_core)\<lparr>gpr := (gpr (regs demo_core))(1 := 0),
                                              flags := 0x25\<rparr>\<rparr>) \<and>
   bit (0x25 :: u64) 0 \<and> \<not> bit (0x25 :: u64) 1 \<and>
   cpu_execute_arithmetic sample_platform demo_core2 sub_r1_r2 =
     (0, demo_core2\<lparr>regs := (regs demo_core2)\<lparr>gpr := (gpr (regs demo_core2))(1 := - 2),
                                                flags := 0x26\<rparr>\<rparr>) \<and>
   \<not> bit (0x26 :: u64) 0 \<and> bit (0x26 :: u64) 1 \<and> bit (- 2 :: u64) 63"
  using flags_zero_sign_after_arithmetic [OF demo_sub_run]
    flags_zero_sign_after_arithmetic [OF demo_sub_run2] demo_sub_run demo_sub_run2
  by (simp add: sub_r1_r2_def)

text \<open>
  Claim C10. A successful arithmetic or logic instruction changes at most
  \<open>gpr[rs1]\<close> and bits 0 and 1 of FLAGS: every other general-purpose register, the
  floating-point and vector registers, PC, SP, FP, LR, bits 2 to 63 of FLAGS and every
  field of the core outside the register file are as before.
\<close>

theorem arithmetic_frame:
  "cpu_execute_arithmetic P core inst = (0, core') \<Longrightarrow>
     (\<forall>r. r \<noteq> ucast (rs1 inst) \<longrightarrow> gpr (regs core') r = gpr (regs core) r) \<and>
     fpr (regs core') = fpr (regs core) \<and>
     vector (regs core') = vector (regs core) \<and>
     pc (regs core') = pc (regs core) \<and>
     sp (regs core') = sp (regs core) \<and>
     fp (regs core') = fp (regs core) \<and>
     lr (regs core') = lr (regs core) \<and>
     (\<forall>n. 2 \<le> n \<longrightarrow> bit (flags (regs core')) n = bit (flags (regs core)) n) \<and>
     core'\<lparr>regs := regs core\<rparr> = core"
  by (erule arithmetic_success) (simp add: update_flags_other)

theorem arithmetic_frame_witness:
  "fst (cpu_execute_arithmetic sample_platform demo_core sub_r1_r2) = 0 \<and>
   gpr (regs (snd (cpu_execute_arithmetic sample_platform demo_core sub_r1_r2))) 2 = 7 \<and>
   gpr (regs (snd (cpu_execute_arithmetic sample_platform demo_core sub_r1_r2))) 1 = 0 \<and>
   pc (regs (snd (cpu_execute_arithmetic sample_platform demo_core sub_r1_r2))) = 0x1000 \<and>
   flags (regs (snd (cpu_execute_arithmetic sample_platform demo_core sub_r1_r2))) = 0x25 \<and>
   bit (flags (regs (snd (cpu_execute_arithmetic sample_platform demo_core sub_r1_r2)))) 5 \<and>
   bit (flags (regs demo_core)) 5 \<and>
   (snd (cpu_execute_arithmetic sample_platform demo_core sub_r1_r2))\<lparr>regs := regs demo_core\<rparr>
     = demo_core"
  using arithmetic_frame [OF demo_sub_run] demo_sub_run
  by (simp add: demo_core_def core0_def cpu_init_core_def zero_regs_def)

text \<open>
  Claim C4. CMP, CLZ, CTZ and POPCNT (R-type, \<open>funct\<close> 0xB to 0xE) are decoded, with
  status 0, and then rejected: \<^verbatim>\<open>cpu_execute_instruction\<close> has no case for them and
  returns -1 with the core untouched, whatever the registers and the other instruction
  fields hold.
\<close>

theorem cmp_clz_ctz_popcnt_fail:
  "cpu_decode_instruction (inst\<lparr>opcode := 0x0, funct := 0xB\<rparr>) None = (0, Some INST_CMP) \<and>
   cpu_execute_instruction P core (inst\<lparr>opcode := 0x0, funct := 0xB\<rparr>) = (- 1, core) \<and>
   cpu_decode_instruction (inst\<lparr>opcode := 0x0, funct := 0xC\<rparr>) None = (0, Some INST_CLZ) \<and>
   cpu_execute_instruction P core (inst\<lparr>opcode := 0x0, funct := 0xC\<rparr>) = (- 1, core) \<and>
   cpu_decode_instruction (inst\<lparr>opcode := 0x0, funct := 0xD\<rparr>) None = (0, Some INST_CTZ) \<and>
   cpu_execute_instruction P core (inst\<lparr>opcode := 0x0, funct := 0xD\<rparr>) = (- 1, core) \<and>
   cpu_decode_instruction (inst\<lparr>opcode := 0x0, funct := 0xE\<rparr>) None = (0, Some INST_POPCNT) \<and>
   cpu_execute_instruction P core (inst\<lparr>opcode := 0x0, funct := 0xE\<rparr>) = (- 1, core)"
  by (simp add: cpu_execute_instruction_def cpu_decode_instruction_def)

text \<open>The integer unit itself has no case for these four either.\<close>

lemma arithmetic_rejects_bit_counting:
  "funct inst \<in> {0xB, 0xC, 0xD, 0xE, 0xF} \<Longrightarrow> cpu_execute_arithmetic P core inst = (- 1, core)"
  by (auto simp: cpu_execute_arithmetic_def arithmetic_switch_def)

section \<open>Properties of the floating-point unit\<close>

text \<open>
  Claim C7, as the source has it. FDIV returns -1 and leaves the core untouched exactly
  when the divisor \<open>fpr[rs2]\<close> is a zero (+0 or -0), whatever the dividend is: zero,
  infinite and NaN dividends are rejected with it too. For every other divisor FDIV
  returns 0 and stores the quotient in \<open>fpr[rs1]\<close>.
\<close>

theorem fdiv_fails_iff_divisor_zero:
  "cpu_execute_floating_point P core (inst\<lparr>funct := 0x3\<rparr>) =
     (if f32_is_zero (fpr (regs core) (ucast (rs2 inst))) then (- 1, core)
      else (0, core\<lparr>regs := (regs core)\<lparr>fpr := (fpr (regs core))
              (ucast (rs1 inst) := fdiv P (fpr (regs core) (ucast (rs1 inst)))
                                          (fpr (regs core) (ucast (rs2 inst))))\<rparr>\<rparr>))"
  by (simp add: cpu_execute_floating_point_def floating_point_switch_def f32_ne_zero_def)

text \<open>
  The claim as stated fails on 0.0 / 0.0: the dividend \<open>fpr[1] = +0\<close> is not finite and
  nonzero, so the claim has FDIV succeed, and the source returns -1.
\<close>

theorem fdiv_zero_by_zero_counterexample:
  "fst (cpu_execute_floating_point sample_platform core0 fdiv_f1_f2) = - 1 \<and>
   fpr (regs core0) (ucast (rs1 fdiv_f1_f2)) = 0 \<and>
   fpr (regs core0) (ucast (rs2 fdiv_f1_f2)) = 0 \<and>
   f32_is_zero 0 \<and>
   \<not> (f32_is_finite 0 \<and> \<not> f32_is_zero 0)"
  by (simp add: cpu_execute_floating_point_def floating_point_switch_def f32_ne_zero_def
      f32_is_zero_def core0_def cpu_init_core_def zero_regs_def fdiv_f1_f2_def)

section \<open>Properties of the vector operations\<close>

subsection \<open>Lanes of a vector and the lane loop\<close>

lemma of_nat_6_eq_iff: "a < 64 \<Longrightarrow> b < 64 \<Longrightarrow> (of_nat a :: 6 word) = of_nat b \<longleftrightarrow> a = b"
  by (simp add: word_of_nat_eq_iff take_bit_nat_eq_self)

lemma bytes_reassemble:
  "ucast (ucast w :: u8)
     OR push_bit 8 (ucast (ucast (drop_bit 8 w) :: u8))
     OR push_bit 16 (ucast (ucast (drop_bit 16 w) :: u8))
     OR push_bit 24 (ucast (ucast (drop_bit 24 w) :: u8)) = (w :: u32)"
  (is "?L = w")
proof (rule bit_eqI)
  fix n :: nat
  assume "possible_bit TYPE(u32) n"
  then have n: "n < 32" by (simp add: possible_bit_def)
  consider "n < 8" | "8 \<le> n" "n < 16" | "16 \<le> n" "n < 24" | "24 \<le> n" "n < 32"
    using n by linarith
  then show "bit ?L n = bit w n"
  proof cases
    case 1
    then show ?thesis by (simp add: bit_simps)
  next
    case 2
    then show ?thesis by (auto simp add: bit_simps)
  next
    case 3
    then show ?thesis by (auto simp add: bit_simps)
  next
    case 4
    then show ?thesis using n by (auto simp add: bit_simps)
  qed
qed

lemma load32_store32_same: "i < 16 \<Longrightarrow> load32 (store32 v (i * 4) w) (i * 4) = w"
  by (simp add: load32_def store32_def of_nat_6_eq_iff bytes_reassemble
      del: of_nat_add of_nat_mult of_nat_Suc)

lemma load32_store32_other:
  "i < 16 \<Longrightarrow> j < 16 \<Longrightarrow> i \<noteq> j \<Longrightarrow> load32 (store32 v (j * 4) w) (i * 4) = load32 v (i * 4)"
  by (simp add: load32_def store32_def of_nat_6_eq_iff
      del: of_nat_add of_nat_mult of_nat_Suc)

lemma bit_or_lane: "i < 16 \<Longrightarrow> bit (fl OR 2 ^ i) k \<longleftrightarrow> bit (fl :: u32) k \<or> k = i"
  by (auto simp add: bit_simps dest: bit_imp_le_length)

text \<open>
  A loop over the 16 lanes whose body stores one lane and may set that lane's flag bit:
  after \<open>n\<close> rounds the first \<open>n\<close> lanes and flag bits are final, the rest untouched.
\<close>

lemma lane_loop:
  assumes step: "\<And>i res. i < 16 \<Longrightarrow>
      body i res = res\<lparr>vr_result := store32 (vr_result res) (i * 4) (val i),
                      vr_flags := (if ov i then vr_flags res OR push_bit i 1 else vr_flags res)\<rparr>"
    and n: "n \<le> 16"
  shows "vr_cycles (for_loop n body init) = vr_cycles init \<and>
         (\<forall>k. bit (vr_flags (for_loop n body init)) k \<longleftrightarrow>
                bit (vr_flags init) k \<or> (k < n \<and> ov k)) \<and>
         (\<forall>j<16. load32 (vr_result (for_loop n body init)) (j * 4) =
                (if j < n then val j else load32 (vr_result init) (j * 4)))"
  using n
proof (induction n)
  case 0
  show ?case by simp
next
  case (Suc n)
  then have n: "n < 16" and IH: "vr_cycles (for_loop n body init) = vr_cycles init"
    "\<And>k. bit (vr_flags (for_loop n body init)) k \<longleftrightarrow> bit (vr_flags init) k \<or> (k < n \<and> ov k)"
    "\<And>j. j < 16 \<Longrightarrow> load32 (vr_result (for_loop n body init)) (j * 4) =
                (if j < n then val j else load32 (vr_result init) (j * 4))"
    by simp_all
  show ?case
    using n
    by (auto simp add: step IH bit_or_lane load32_store32_same load32_store32_other less_Suc_eq)
qed

lemma load32_vector_init_zero: "load32 vector_init_zero off = 0"
  by (simp add: load32_def vector_init_zero_def)

lemma init_loop:
  "n \<le> 16 \<Longrightarrow> j < 16 \<Longrightarrow>
     load32 (for_loop n (\<lambda>i v. store32 v (i * 4) (arr i)) v0) (j * 4) =
       (if j < n then arr j else load32 v0 (j * 4))"
  by (induction n) (auto simp add: load32_store32_same load32_store32_other less_Suc_eq)

lemma load32_vector_init_int32_array:
  "j < 16 \<Longrightarrow> load32 (vector_init_int32_array arr count) (j * 4) =
     (if j < count then arr j else 0)"
  by (simp add: vector_init_int32_array_def Let_def init_loop load32_vector_init_zero)

subsection \<open>Addition\<close>

lemma vector_add_int32_body_form:
  "vector_add_int32_body a b i res =
     res\<lparr>vr_result := store32 (vr_result res) (i * 4) (load32 a (i * 4) + load32 b (i * 4)),
         vr_flags := (if (0 <s load32 a (i * 4) \<and> 0 <s load32 b (i * 4) \<and>
                          load32 a (i * 4) + load32 b (i * 4) <s 0) \<or>
                         (load32 a (i * 4) <s 0 \<and> load32 b (i * 4) <s 0 \<and>
                          0 <s load32 a (i * 4) + load32 b (i * 4))
                      then vr_flags res OR push_bit i 1 else vr_flags res)\<rparr>"
  by (simp add: vector_add_int32_body_def Let_def)

lemma vector_add_int32_lanes:
  fixes a b :: alpha_ahb_vector_t
  shows "i < 16 \<Longrightarrow> load32 (vr_result (vector_add_int32 u a b)) (i * 4) =
           load32 a (i * 4) + load32 b (i * 4)"
    and "bit (vr_flags (vector_add_int32 u a b)) k \<longleftrightarrow>
           k < 16 \<and> ((0 <s load32 a (k * 4) \<and> 0 <s load32 b (k * 4) \<and>
                          load32 a (k * 4) + load32 b (k * 4) <s 0) \<or>
                         (load32 a (k * 4) <s 0 \<and> load32 b (k * 4) <s 0 \<and>
                          0 <s load32 a (k * 4) + load32 b (k * 4)))"
    and "vr_cycles (vector_add_int32 u a b) = 2"
  using lane_loop [of "vector_add_int32_body a b" _ _ 16
      "\<lparr>vr_result = u, vr_flags = 0, vr_cycles = 2\<rparr>", OF vector_add_int32_body_form]
  unfolding vector_add_int32_def by (simp_all add: Let_def)

text \<open>
  Each result lane is the wrap-around sum of the input lanes, and flag bit \<open>k\<close> is the
  source's test on lane \<open>k\<close>. That test agrees with signed overflow of the exact sum
  on every pair of lanes but one: \<^verbatim>\<open>INT32_MIN + INT32_MIN\<close>, whose wrapped sum is 0
  and so fails \<^verbatim>\<open>val_result > 0\<close>.
\<close>

lemma stb_high: "2147483648 \<le> k \<Longrightarrow> k < 4294967296 \<Longrightarrow> signed_take_bit 31 (k :: int) = k - 4294967296"
proof -
  assume a: "2147483648 \<le> k" "k < 4294967296"
  have "signed_take_bit 31 k = take_bit 32 (k + 2147483648) - 2147483648"
    by (simp add: signed_take_bit_eq_take_bit_shift)
  also have "take_bit 32 (k + 2147483648) = (k + 2147483648) mod 4294967296"
    by (simp add: take_bit_eq_mod)
  also have "\<dots> = ((k - 2147483648) + 4294967296) mod 4294967296"
    by (simp add: add.commute)
  also have "\<dots> = (k - 2147483648) mod 4294967296"
    by (rule mod_add_self2)
  also have "\<dots> = k - 2147483648"
    using a by (intro mod_pos_pos_trivial) simp_all
  finally show ?thesis by simp
qed

lemma stb_low: "- 4294967296 \<le> k \<Longrightarrow> k < - 2147483648 \<Longrightarrow> signed_take_bit 31 (k :: int) = k + 4294967296"
proof -
  assume a: "- 4294967296 \<le> k" "k < - 2147483648"
  have "signed_take_bit 31 k = take_bit 32 (k + 2147483648) - 2147483648"
    by (simp add: signed_take_bit_eq_take_bit_shift)
  also have "take_bit 32 (k + 2147483648) = (k + 2147483648) mod 4294967296"
    by (simp add: take_bit_eq_mod)
  also have "\<dots> = (k + 2147483648 + 4294967296) mod 4294967296"
    by (rule mod_add_self2 [symmetric])
  also have "\<dots> = k + 2147483648 + 4294967296"
    using a by (intro mod_pos_pos_trivial) simp_all
  finally show ?thesis by simp
qed

lemma sint_add32:
  "sint (a + b :: u32) =
     (if 2147483647 < sint a + sint b then sint a + sint b - 4294967296
      else if sint a + sint b < - 2147483648 then sint a + sint b + 4294967296
      else sint a + sint b)"
proof -
  have s: "sint (a + b) = signed_take_bit 31 (sint a + sint b)"
    by (simp add: sint_word_ariths)
  have r: "- 2147483648 \<le> sint a" "sint a < 2147483648" "- 2147483648 \<le> sint b" "sint b < 2147483648"
    using sint_ge [of a] sint_lt [of a] sint_ge [of b] sint_lt [of b] by simp_all
  show ?thesis
    unfolding s using r
    by (auto simp add: stb_high stb_low signed_take_bit_int_eq_self)
qed

lemma sint_min32: "sint (a :: u32) = - 2147483648 \<longleftrightarrow> a = 0x80000000"
proof
  assume "sint a = - 2147483648"
  then have "word_of_int (sint a) = (word_of_int (- 2147483648) :: u32)" by simp
  then show "a = 0x80000000" by simp
next
  assume "a = 0x80000000"
  then show "sint a = - 2147483648" by simp
qed

lemma add_overflow_test_iff:
  fixes a b :: u32
  shows "(0 <s a \<and> 0 <s b \<and> a + b <s 0) \<or> (a <s 0 \<and> b <s 0 \<and> 0 <s a + b) \<longleftrightarrow>
     (2147483647 < sint a + sint b \<or> sint a + sint b < - 2147483648) \<and>
     \<not> (a = 0x80000000 \<and> b = 0x80000000)"
proof -
  have r: "- 2147483648 \<le> sint a" "sint a < 2147483648" "- 2147483648 \<le> sint b" "sint b < 2147483648"
    using sint_ge [of a] sint_lt [of a] sint_ge [of b] sint_lt [of b] by simp_all
  show ?thesis
    unfolding word_sless_alt sint_add32 sint_min32 [symmetric]
    using r by auto
qed

text \<open>The scenario of the specification: lanes 1..16 plus lanes 2, 4, .., 32.\<close>

lemma vector_add_int32_example:
  "vector_extract_int32_array (vr_result (vector_add_int32 u
       (vector_init_int32_array (nth [1, 2, 3, 4, 5, 6, 7, 8, 9, 10, 11, 12, 13, 14, 15, 16]) 16)
       (vector_init_int32_array (nth [2, 4, 6, 8, 10, 12, 14, 16, 18, 20, 22, 24, 26, 28, 30, 32]) 16))) 16
     = [3, 6, 9, 12, 15, 18, 21, 24, 27, 30, 33, 36, 39, 42, 45, 48]
   \<and> vr_flags (vector_add_int32 u
       (vector_init_int32_array (nth [1, 2, 3, 4, 5, 6, 7, 8, 9, 10, 11, 12, 13, 14, 15, 16]) 16)
       (vector_init_int32_array (nth [2, 4, 6, 8, 10, 12, 14, 16, 18, 20, 22, 24, 26, 28, 30, 32]) 16)) = 0"
proof -
  let ?A = "vector_init_int32_array (nth [1, 2, 3, 4, 5, 6, 7, 8, 9, 10, 11, 12, 13, 14, 15, 16]) 16"
  let ?B = "vector_init_int32_array (nth [2, 4, 6, 8, 10, 12, 14, 16, 18, 20, 22, 24, 26, 28, 30, 32]) 16"
  have up: "[0..<16] = [0,1,2,3,4,5,6,7,8,9,10,11,12,13,14,15]"
    by (simp add: upt_rec)
  have lanes: "map (\<lambda>i. load32 (vr_result (vector_add_int32 u ?A ?B)) (i * 4)) [0..<16]
      = map (\<lambda>i. [1, 2, 3, 4, 5, 6, 7, 8, 9, 10, 11, 12, 13, 14, 15, 16] ! i
               + [2, 4, 6, 8, 10, 12, 14, 16, 18, 20, 22, 24, 26, 28, 30, 32] ! i) [0..<16]"
    by (rule map_cong [OF refl])
      (simp add: vector_add_int32_lanes load32_vector_init_int32_array)
  have fl: "\<not> bit (vr_flags (vector_add_int32 u ?A ?B)) k" for k
  proof (cases "k < 16")
    case True
    then have "k \<in> set [0..<16]" by simp
    then show ?thesis
      unfolding up
      by (auto simp add: vector_add_int32_lanes load32_vector_init_int32_array word_sless_alt)
  next
    case False
    then show ?thesis by (simp add: vector_add_int32_lanes)
  qed
  have "vr_flags (vector_add_int32 u ?A ?B) = 0"
    by (rule bit_eqI) (simp add: fl)
  moreover have "vector_extract_int32_array (vr_result (vector_add_int32 u ?A ?B)) 16
     = [3, 6, 9, 12, 15, 18, 21, 24, 27, 30, 33, 36, 39, 42, 45, 48]"
  proof -
    have "vector_extract_int32_array (vr_result (vector_add_int32 u ?A ?B)) 16
        = map (\<lambda>i. load32 (vr_result (vector_add_int32 u ?A ?B)) (i * 4)) [0..<16]"
      by (simp add: vector_extract_int32_array_def)
    also note lanes
    also have "map (\<lambda>i. [1, 2, 3, 4, 5, 6, 7, 8, 9, 10, 11, 12, 13, 14, 15, 16] ! i
               + [2, 4, 6, 8, 10, 12, 14, 16, 18, 20, 22, 24, 26, 28, 30, 32] ! i) [0..<16]
        = [3, 6, 9, 12, 15, 18, 21, 24, 27, 30, 33, 36, 39, 42, 45, 48 :: u32]"
      unfolding up by simp
    finally show ?thesis .
  qed
  ultimately show ?thesis by simp
qed

text \<open>
  Claim C5, at the input where the source departs from it. Lane 0 of both operands is
  \<^verbatim>\<open>INT32_MIN\<close>: the exact sum is -4294967296, outside the 32-bit signed range, the
  result lane wraps to 0, and flag bit 0 stays clear.
\<close>

theorem vector_add_int32_min_plus_min:
  "sint (load32 (vector_init_int32_array (nth [0x80000000]) 1) 0) = - 2147483648 \<and>
   load32 (vr_result (vector_add_int32 vector_init_zero
       (vector_init_int32_array (nth [0x80000000]) 1)
       (vector_init_int32_array (nth [0x80000000]) 1))) 0 = 0 \<and>
   \<not> bit (vr_flags (vector_add_int32 vector_init_zero
       (vector_init_int32_array (nth [0x80000000]) 1)
       (vector_init_int32_array (nth [0x80000000]) 1))) 0"
  using vector_add_int32_lanes(1) [of 0 vector_init_zero "vector_init_int32_array (nth [0x80000000]) 1" "vector_init_int32_array (nth [0x80000000]) 1"]
   vector_add_int32_lanes(2) [of vector_init_zero "vector_init_int32_array (nth [0x80000000]) 1" "vector_init_int32_array (nth [0x80000000]) 1" 0]
   load32_vector_init_int32_array [of 0 "nth [0x80000000]" 1]
  by (simp add: word_sless_alt)

text \<open>
  The VADD of \<^verbatim>\<open>cpu_execute_vector\<close> is a different operation: 64 byte lanes, each
  the sum modulo 256 of the two bytes, with no carry between bytes and no flags.
\<close>

lemma unat_of_nat_6: "n < 64 \<Longrightarrow> unat (of_nat n :: 6 word) = n"
  by (simp add: unat_of_nat)

lemma eq_of_nat_6_iff: "n < 64 \<Longrightarrow> (k :: 6 word) = of_nat n \<longleftrightarrow> unat k = n"
  using unat_of_nat_6 [of n] by auto

lemma vector_byte_loop:
  "n \<le> 64 \<Longrightarrow>
     for_loop n (vector_byte_step opr r1 r2) v =
       v(r1 := (\<lambda>k. if unat k < n then opr (v r1 k) (v r2 k) else v r1 k))"
proof (induction n)
  case 0
  show ?case by simp
next
  case (Suc n)
  from Suc.prems have n: "n < 64" by simp
  have IH: "for_loop n (vector_byte_step opr r1 r2) v =
       v(r1 := (\<lambda>k. if unat k < n then opr (v r1 k) (v r2 k) else v r1 k))"
    by (rule Suc.IH) (use n in simp)
  show ?case
    apply (simp only: for_loop.simps IH)
    apply (rule ext)
    apply (rule ext)
    using n 
    apply (auto simp add: vector_byte_step_def unat_of_nat_6 eq_of_nat_6_iff less_Suc_eq)
    done
qed

lemma cpu_execute_vector_vadd:
  "cpu_execute_vector core (inst\<lparr>funct := 0x0\<rparr>) =
     (0, core\<lparr>regs := (regs core)\<lparr>vector := (vector (regs core))
        (ucast (rs1 inst) := (\<lambda>k. vector (regs core) (ucast (rs1 inst)) k
                                  + vector (regs core) (ucast (rs2 inst)) k))\<rparr>\<rparr>)"
proof -
  have "unat k < 64" for k :: "6 word"
    using unsigned_less [of k, where 'a = nat] by simp
  then show ?thesis
    by (simp add: cpu_execute_vector_def Let_def vector_byte_loop del: for_loop.simps)
qed

subsection \<open>Multiplication\<close>

lemma sint32_abs: "\<bar>sint (a :: u32)\<bar> \<le> 2147483648"
  using sint_ge [of a] sint_lt [of a] by simp

lemma product_bounds:
  "- 4611686018427387904 \<le> sint (a :: u32) * sint (b :: u32) \<and>
   sint a * sint b \<le> 4611686018427387904"
proof -
  have "\<bar>sint a * sint b\<bar> = \<bar>sint a\<bar> * \<bar>sint b\<bar>" by (simp add: abs_mult)
  also have "\<dots> \<le> 2147483648 * 2147483648"
    by (intro mult_mono sint32_abs) simp_all
  finally have "\<bar>sint a * sint b\<bar> \<le> 4611686018427387904" by simp
  then show ?thesis by linarith
qed

lemma wide_product_exact:
  "sint ((scast a :: u64) * scast b) = sint (a :: u32) * sint (b :: u32)"
proof -
  have ua: "sint (scast a :: u64) = sint a" and ub: "sint (scast b :: u64) = sint b"
    by (simp_all add: sint_up_scast is_up)
  have "sint ((scast a :: u64) * scast b) = signed_take_bit 63 (sint a * sint b)"
    by (simp add: sint_word_ariths ua ub)
  also have "\<dots> = sint a * sint b"
    using product_bounds [of a b] by (intro signed_take_bit_int_eq_self) simp_all
  finally show ?thesis .
qed

lemma narrow_exact:
  "- 2147483648 \<le> sint (w :: u64) \<Longrightarrow> sint w \<le> 2147483647 \<Longrightarrow> sint (ucast w :: u32) = sint w"
proof -
  assume b: "- 2147483648 \<le> sint w" "sint w \<le> 2147483647"
  have "(ucast w :: u32) = scast w"
    by (simp add: down_cast_same [symmetric] is_down)
  then have "sint (ucast w :: u32) = signed_take_bit 31 (sint w)"
    by (simp add: signed_scast_eq)
  also have "\<dots> = sint w"
    using b by (intro signed_take_bit_int_eq_self) simp_all
  finally show ?thesis .
qed

lemma vector_mul_int32_body_form:
  "vector_mul_int32_body a b i res =
     res\<lparr>vr_result := store32 (vr_result res) (i * 4)
            (let v = (scast (load32 a (i * 4)) :: u64) * scast (load32 b (i * 4))
             in ucast (if 2147483647 <s v \<or> v <s - 2147483648
                       then (if 0 <s v then 2147483647 else - 2147483648) else v)),
         vr_flags := (if (let v = (scast (load32 a (i * 4)) :: u64) * scast (load32 b (i * 4))
                          in 2147483647 <s v \<or> v <s - 2147483648)
                      then vr_flags res OR push_bit i 1 else vr_flags res)\<rparr>"
  by (simp add: vector_mul_int32_body_def Let_def)

lemma vector_mul_int32_lanes:
  fixes a b :: alpha_ahb_vector_t
  assumes "i < 16"
  defines "v \<equiv> (scast (load32 a (i * 4)) :: u64) * scast (load32 b (i * 4))"
  shows "load32 (vr_result (vector_mul_int32 u a b)) (i * 4) =
           ucast (if 2147483647 <s v \<or> v <s - 2147483648
                  then (if 0 <s v then 2147483647 else - 2147483648) else v)"
    and "bit (vr_flags (vector_mul_int32 u a b)) i \<longleftrightarrow> 2147483647 <s v \<or> v <s - 2147483648"
    and "vr_cycles (vector_mul_int32 u a b) = 4"
  using lane_loop [of "vector_mul_int32_body a b" _ _ 16
      "\<lparr>vr_result = u, vr_flags = 0, vr_cycles = 4\<rparr>", OF vector_mul_int32_body_form] assms
  unfolding vector_mul_int32_def by (simp_all add: Let_def)

text \<open>
  Claim C6. For each of the 16 lanes, the 64-bit intermediate is the exact product \<open>p\<close>
  of the two signed lanes. If \<open>p\<close> exceeds \<^verbatim>\<open>INT32_MAX\<close> the result lane is
  \<^verbatim>\<open>INT32_MAX\<close> and the lane's flag bit is set; if \<open>p\<close> is below \<^verbatim>\<open>INT32_MIN\<close> the
  result lane is \<^verbatim>\<open>INT32_MIN\<close> and the flag bit is set; otherwise the result lane is
  \<open>p\<close> and the flag bit is clear.
\<close>

theorem vector_mul_int32_saturates:
  assumes "i < 16"
  shows "let p = sint (load32 a (i * 4)) * sint (load32 b (i * 4));
             r = vector_mul_int32 u a b
         in sint ((scast (load32 a (i * 4)) :: u64) * scast (load32 b (i * 4))) = p \<and>
            (if 2147483647 < p
             then load32 (vr_result r) (i * 4) = 0x7FFFFFFF \<and> bit (vr_flags r) i
             else if p < - 2147483648
             then load32 (vr_result r) (i * 4) = 0x80000000 \<and> bit (vr_flags r) i
             else sint (load32 (vr_result r) (i * 4)) = p \<and> \<not> bit (vr_flags r) i)"
proof -
  define v where "v = (scast (load32 a (i * 4)) :: u64) * scast (load32 b (i * 4))"
  define p where "p = sint (load32 a (i * 4)) * sint (load32 b (i * 4))"
  have vp: "sint v = p"
    unfolding v_def p_def by (rule wide_product_exact)
  have gt: "2147483647 <s v \<longleftrightarrow> 2147483647 < p"
    and lt: "v <s - 2147483648 \<longleftrightarrow> p < - 2147483648"
    and pos: "0 <s v \<longleftrightarrow> 0 < p"
    by (simp_all add: word_sless_alt vp)
  note L = vector_mul_int32_lanes [OF assms, of u a b, folded v_def]
  show ?thesis
    unfolding Let_def p_def [symmetric] v_def [symmetric]
    using narrow_exact [of v]
    by (auto simp add: L gt lt pos vp)
qed

lemma mul_witness_lanes:
  "load32 (vector_init_int32_array (nth [65536, 3, 65536]) 3) (0 * 4) = 65536"
  "load32 (vector_init_int32_array (nth [65536, 3, 65536]) 3) (1 * 4) = 3"
  "load32 (vector_init_int32_array (nth [65536, 3, 65536]) 3) (2 * 4) = 65536"
  "load32 (vector_init_int32_array (nth [65536, 5, - 65536]) 3) (0 * 4) = 65536"
  "load32 (vector_init_int32_array (nth [65536, 5, - 65536]) 3) (1 * 4) = 5"
  "load32 (vector_init_int32_array (nth [65536, 5, - 65536]) 3) (2 * 4) = - 65536"
  by (simp_all only: load32_vector_init_int32_array) simp_all

theorem vector_mul_int32_saturates_witness:
  "(0 :: nat) < 16 \<and> (1 :: nat) < 16 \<and> (2 :: nat) < 16 \<and>
   load32 (vr_result (vector_mul_int32 vector_init_zero
       (vector_init_int32_array (nth [65536, 3, 65536]) 3)
       (vector_init_int32_array (nth [65536, 5, - 65536]) 3))) (0 * 4) = 0x7FFFFFFF \<and>
   bit (vr_flags (vector_mul_int32 vector_init_zero
       (vector_init_int32_array (nth [65536, 3, 65536]) 3)
       (vector_init_int32_array (nth [65536, 5, - 65536]) 3))) 0 \<and>
   load32 (vr_result (vector_mul_int32 vector_init_zero
       (vector_init_int32_array (nth [65536, 3, 65536]) 3)
       (vector_init_int32_array (nth [65536, 5, - 65536]) 3))) (1 * 4) = 15 \<and>
   \<not> bit (vr_flags (vector_mul_int32 vector_init_zero
       (vector_init_int32_array (nth [65536, 3, 65536]) 3)
       (vector_init_int32_array (nth [65536, 5, - 65536]) 3))) 1 \<and>
   load32 (vr_result (vector_mul_int32 vector_init_zero
       (vector_init_int32_array (nth [65536, 3, 65536]) 3)
       (vector_init_int32_array (nth [65536, 5, - 65536]) 3))) (2 * 4) = 0x80000000 \<and>
   bit (vr_flags (vector_mul_int32 vector_init_zero
       (vector_init_int32_array (nth [65536, 3, 65536]) 3)
       (vector_init_int32_array (nth [65536, 5, - 65536]) 3))) 2"
proof -
  let ?A = "vector_init_int32_array (nth [65536, 3, 65536]) 3"
  let ?B = "vector_init_int32_array (nth [65536, 5, - 65536]) 3"
  note L = mul_witness_lanes
  have l0: "load32 (vr_result (vector_mul_int32 vector_init_zero ?A ?B)) (0 * 4) = 0x7FFFFFFF
      \<and> bit (vr_flags (vector_mul_int32 vector_init_zero ?A ?B)) 0"
    using vector_mul_int32_saturates [of 0 ?A ?B vector_init_zero]
    unfolding Let_def L by simp
  have l1: "sint (load32 (vr_result (vector_mul_int32 vector_init_zero ?A ?B)) (1 * 4)) = 15
      \<and> \<not> bit (vr_flags (vector_mul_int32 vector_init_zero ?A ?B)) 1"
    using vector_mul_int32_saturates [of 1 ?A ?B vector_init_zero]
    unfolding Let_def L by simp
  have l2: "load32 (vr_result (vector_mul_int32 vector_init_zero ?A ?B)) (2 * 4) = 0x80000000
      \<and> bit (vr_flags (vector_mul_int32 vector_init_zero ?A ?B)) 2"
    using vector_mul_int32_saturates [of 2 ?A ?B vector_init_zero]
    unfolding Let_def L by simp
  from l1 have "word_of_int (sint (load32 (vr_result (vector_mul_int32 vector_init_zero ?A ?B)) (1 * 4)))
      = (word_of_int 15 :: u32)"
    by simp
  then have l1': "load32 (vr_result (vector_mul_int32 vector_init_zero ?A ?B)) (1 * 4) = 15"
    by simp
  show ?thesis
    using l0 l1 l1' l2 by simp
qed

section \<open>Properties of the dense layer\<close>

lemma dense_inner_sum:
  "n \<le> unat (input_size layer) \<Longrightarrow>
     snd (for_loop n (npu_dense_inner layer input ppo oi) (npu, s)) =
       s + (\<Sum>i<n. (scast (weights layer (unat (oi * input_size layer + of_nat i))) :: u32)
                    * scast (input i))"
proof (induction n)
  case 0
  show ?case by simp
next
  case (Suc n)
  then have lt: "n < unat (input_size layer)" by simp
  then have un: "unat (of_nat n :: u32) = n"
    by (intro le_unat_uoi [of _ "input_size layer"]) simp
  have wl: "(of_nat n :: u32) < input_size layer"
    using lt by (simp add: word_less_nat_alt un)
  show ?case
    using Suc.IH lt
    by (simp add: npu_dense_inner_def Let_def wl un del: of_nat_add of_nat_mult)
qed

lemma dense_outer_output:
  "n \<le> unat (output_size layer) \<Longrightarrow>
     snd (for_loop n (npu_dense_outer M layer input ppo) (npu, out)) =
       (\<lambda>j. if j < n then
          npu_apply_activation M
            (ucast ((\<Sum>i<min (unat ppo) (unat (input_size layer)).
                       (scast (weights layer (unat (of_nat j * input_size layer + of_nat i))) :: u32)
                       * scast (input i))
                    + scast (biases layer j)) :: npu_activation_t)
            (layer_activation layer)
        else out j)"
proof (induction n)
  case 0
  show ?case by simp
next
  case (Suc n)
  then have lt: "n < unat (output_size layer)" by simp
  then have un: "unat (of_nat n :: u32) = n"
    by (intro le_unat_uoi [of _ "output_size layer"]) simp
  obtain npu1 out1 where st: "for_loop n (npu_dense_outer M layer input ppo) (npu, out) = (npu1, out1)"
    by (cases "for_loop n (npu_dense_outer M layer input ppo) (npu, out)")
  have o1: "out1 = (\<lambda>j. if j < n then
          npu_apply_activation M
            (ucast ((\<Sum>i<min (unat ppo) (unat (input_size layer)).
                       (scast (weights layer (unat (of_nat j * input_size layer + of_nat i))) :: u32)
                       * scast (input i))
                    + scast (biases layer j)) :: npu_activation_t)
            (layer_activation layer)
        else out j)"
    using Suc.IH lt st by simp
  have "for_loop (Suc n) (npu_dense_outer M layer input ppo) (npu, out) =
          npu_dense_outer M layer input ppo n (npu1, out1)"
    by (simp add: st)
  also have "snd \<dots> = out1(n :=
          npu_apply_activation M
            (ucast ((\<Sum>i<min (unat ppo) (unat (input_size layer)).
                       (scast (weights layer (unat (of_nat n * input_size layer + of_nat i))) :: u32)
                       * scast (input i))
                    + scast (biases layer n)) :: npu_activation_t)
            (layer_activation layer))"
    by (simp add: npu_dense_outer_def Let_def un dense_inner_sum del: of_nat_add of_nat_mult)
  finally show ?case
    by (auto simp add: o1 less_Suc_eq simp del: for_loop.simps)
qed

text \<open>
  What \<^verbatim>\<open>npu_dense_forward\<close> computes: for a layer with at least one output it
  returns, and output \<open>j\<close> is the activation of the narrowed sum of the bias and of the
  products for the first \<open>min pe_per_output input_size\<close> inputs only, where
  \<open>pe_per_output\<close> is \<open>1024 div output_size\<close> (1 when that is 0).
\<close>

lemma npu_dense_forward_output:
  "output_size layer \<noteq> 0 \<Longrightarrow>
     \<exists>npu'. npu_dense_forward M npu layer input out =
       Inr (npu', \<lambda>j. if j < unat (output_size layer) then
          npu_apply_activation M
            (ucast ((\<Sum>i<min (unat (if 1024 div output_size layer = 0 then 1
                                     else 1024 div output_size layer))
                            (unat (input_size layer)).
                       (scast (weights layer (unat (of_nat j * input_size layer + of_nat i))) :: u32)
                       * scast (input i))
                    + scast (biases layer j)) :: npu_activation_t)
            (layer_activation layer)
        else out j)"
  using dense_outer_output [of "unat (output_size layer)" layer M input
      "if 1024 div output_size layer = 0 then 1 else 1024 div output_size layer"
      "for_loop 1024 npu_reset_pe npu" out]
  by (simp add: npu_dense_forward_def Let_def prod_eq_iff del: for_loop.simps)

lemma npu_dense_forward_zero_outputs:
  "output_size layer = 0 \<Longrightarrow> npu_dense_forward M npu layer input out = Inl DivisionByZero"
  by (simp add: npu_dense_forward_def Let_def)

text \<open>The example of the specification: input [1, 1], identity weights, zero biases.\<close>

lemma npu_dense_forward_identity_example:
  "\<exists>npu' out'. npu_dense_forward M npu identity_layer (nth [1, 1]) out = Inr (npu', out') \<and>
      out' 0 = 1 \<and> out' 1 = 1 \<and>
      dense_layer_spec M identity_layer (nth [1, 1]) 0 = 1 \<and>
      dense_layer_spec M identity_layer (nth [1, 1]) 1 = 1"
proof -
  have nz: "output_size identity_layer \<noteq> 0" by (simp add: identity_layer_def)
  from npu_dense_forward_output [OF nz, of M npu "nth [1, 1]" out]
  obtain npu' out' where
    r: "npu_dense_forward M npu identity_layer (nth [1, 1]) out = Inr (npu', out')"
    and o: "out' = (\<lambda>j. if j < unat (output_size identity_layer) then
          npu_apply_activation M
            (ucast ((\<Sum>i<min (unat (if 1024 div output_size identity_layer = 0 then 1
                                     else 1024 div output_size identity_layer))
                            (unat (input_size identity_layer)).
                       (scast (weights identity_layer (unat (of_nat j * input_size identity_layer + of_nat i))) :: u32)
                       * scast ([1, 1 :: npu_activation_t] ! i))
                    + scast (biases identity_layer j)) :: npu_activation_t)
            (layer_activation identity_layer)
        else out j)"
    by blast
  have s2: "{..<2::nat} = {0, 1}" by auto
  show ?thesis
    unfolding r o
    by (simp add: identity_layer_def dense_layer_spec_def npu_apply_activation_def
        npu_activation_relu_def word_sless_alt s2)
qed

text \<open>
  Claim C8, at an input where the source departs from it. For the layer with two inputs
  and 1024 outputs each output gets one processing element, so the inner loop stops
  after the first input: with all weights and both inputs 1 the source writes
  \<open>output[0] = 1\<close>, where the sum over both inputs gives 2.
\<close>

theorem npu_dense_forward_drops_inputs:
  "(case npu_dense_forward M npu wide_layer (\<lambda>_. 1) out of
      Inl e \<Rightarrow> False
    | Inr (npu', out') \<Rightarrow> out' 0 = 1)
   \<and> dense_layer_spec M wide_layer (\<lambda>_. 1) 0 = 2"
proof -
  have nz: "output_size wide_layer \<noteq> 0" by (simp add: wide_layer_def)
  from npu_dense_forward_output [OF nz, of M npu "\<lambda>_. 1" out]
  obtain npu' where
    r: "npu_dense_forward M npu wide_layer (\<lambda>_. 1) out = Inr (npu', \<lambda>j. if j < unat (output_size wide_layer) then
          npu_apply_activation M
            (ucast ((\<Sum>i<min (unat (if 1024 div output_size wide_layer = 0 then 1
                                     else 1024 div output_size wide_layer))
                            (unat (input_size wide_layer)).
                       (scast (weights wide_layer (unat (of_nat j * input_size wide_layer + of_nat i))) :: u32)
                       * scast (1 :: npu_activation_t))
                    + scast (biases wide_layer j)) :: npu_activation_t)
            (layer_activation wide_layer)
        else out j)"
    by blast
  show ?thesis
    unfolding r
    by (simp add: wide_layer_def dense_layer_spec_def npu_apply_activation_def
        npu_activation_relu_def word_sless_alt)
qed

end
